theory Spec2Isabelle
  imports Main "HOL-Library.Finite_Map" "HOL-Library.Multiset" "HOL-Library.Word"
begin

section \<open>Data model\<close>

text \<open>
  A Go \<open>error\<close> value is either the sentinel \<open>sql.ErrNoRows\<close>, which
  \<open>GetMapSourceToID\<close> compares against, or any other error, kept by its message.
\<close>

datatype error = ErrNoRows | Err string

type_synonym IP = "8 word list"

text \<open>
  A \<open>float64\<close> is carried through the cache unchanged and never computed with, so it is
  kept as its 64 bits.
\<close>

type_synonym float64 = "64 word"

text \<open>
  Modelled from the spec: the declaration of the struct \<open>Node\<close> is not in \<open>cache.go\<close>.
  The fields are the ones \<open>cache.go\<close> reads and writes and \<open>TestDatabase\<close> initialises;
  \<open>Status\<close> is the enumerated status, kept as its integer code.

  A \<open>[]*Node\<close> is modelled as the list of the pointed-to structs: every slice of this
  file is either freshly decoded or built from such slices, so no two elements alias, and
  assigning \<open>n.SourceID\<close> through the pointer is the update of that element. A nil element,
  at which the Go code would stop with a nil dereference, is outside the model.
\<close>

record Node =
  Addr :: IP
  OwnerName :: string
  OwnerEmail :: string
  Latitude :: float64
  Longitude :: float64
  Status :: int
  SourceID :: int
  RetrieveTime :: int

text \<open>The values handed to \<open>stmt.Exec\<close>, by their Go type.\<close>

datatype sqlval =
    V_IP IP
  | V_Bytes "8 word list"
  | V_String string
  | V_Float float64
  | V_Status int
  | V_Int int

text \<open>
  The database handle as the functions of \<open>cache.go\<close> see it: the rows that were inserted
  into \<open>nodes_cached\<close>, in order, and the trace of every driver call made so far.
\<close>

datatype db_call =
    C_Prepare string
  | C_Exec string "sqlval list"
  | C_Close string

record DB =
  nodes_cached :: "sqlval list list"
  calls :: "db_call list"

text \<open>
  Everything outside the program: whether the driver accepts a statement or an insert
  (it may depend on the state of the database), what the query over \<open>cached_maps\<close>
  returns, the wall clock as read in each iteration of the insert loop, the network and
  the JSON decoder.
\<close>

record nodeDumpWrapper =
  Data :: "(string \<times> Node list) list"
  Error :: "string option"

record world =
  prepare_err :: "DB \<Rightarrow> string \<Rightarrow> error option"
  exec_err :: "DB \<Rightarrow> string \<Rightarrow> sqlval list \<Rightarrow> error option"
  query_cached_maps :: "error + (error + string \<times> int) list"
  unix_now :: "nat \<Rightarrow> int"
  http_get :: "string \<Rightarrow> error + string"
  json_decode :: "string \<Rightarrow> error + nodeDumpWrapper"

section \<open>The driver calls\<close>

definition Prepare :: "world \<Rightarrow> DB \<Rightarrow> string \<Rightarrow> error option \<times> DB" where
  "Prepare w db q = (prepare_err w db q, db\<lparr>calls := calls db @ [C_Prepare q]\<rparr>)"

definition Exec :: "world \<Rightarrow> DB \<Rightarrow> string \<Rightarrow> sqlval list \<Rightarrow> error option \<times> DB" where
  "Exec w db q args =
     (case exec_err w db q args of
        Some e \<Rightarrow> (Some e, db\<lparr>calls := calls db @ [C_Exec q args]\<rparr>)
      | None \<Rightarrow> (None, db\<lparr>nodes_cached := nodes_cached db @ [args],
                            calls := calls db @ [C_Exec q args]\<rparr>))"

definition Close :: "DB \<Rightarrow> string \<Rightarrow> DB" where
  "Close db q = db\<lparr>calls := calls db @ [C_Close q]\<rparr>"

section \<open>The two INSERT statements\<close>

definition CacheNode_sql :: string where
  "CacheNode_sql =
     ''INSERT INTO nodes_cached'' @ [CHR 0x0A] @
     ''(address, owner, lat, lon, status, expiration)'' @ [CHR 0x0A] @
     ''VALUES(?, ?, ?, ?, ?, ?, ?)''"

definition CacheNodes_sql :: string where
  "CacheNodes_sql =
     ''INSERT INTO nodes_cached'' @ [CHR 0x0A] @
     ''(address, owner, lat, lon, status, source, retrieved)'' @ [CHR 0x0A] @
     ''VALUES (?, ?, ?, ?, ?, ?, ?)''"

text \<open>
  Reading a statement: the column names are the comma-separated words between the first
  opening parenthesis and the next closing one, and every \<open>?\<close> is a value placeholder.
\<close>

fun split_on :: "char \<Rightarrow> string \<Rightarrow> string list" where
  "split_on c [] = [[]]"
| "split_on c (x # xs) =
     (if x = c then [] # split_on c xs
      else (case split_on c xs of
              [] \<Rightarrow> [[x]]
            | u # us \<Rightarrow> (x # u) # us))"

definition trim_spaces :: "string \<Rightarrow> string" where
  "trim_spaces s =
     rev (dropWhile (\<lambda>c. c = CHR '' '') (rev (dropWhile (\<lambda>c. c = CHR '' '') s)))"

definition columns_of :: "string \<Rightarrow> string list" where
  "columns_of q =
     map trim_spaces
       (split_on (CHR '','')
          (takeWhile (\<lambda>c. c \<noteq> CHR '')'') (drop 1 (dropWhile (\<lambda>c. c \<noteq> CHR ''('') q))))"

definition placeholders_of :: "string \<Rightarrow> nat" where
  "placeholders_of q = length (filter (\<lambda>c. c = CHR ''?'') q)"

section \<open>CacheNode and CacheNodes\<close>

definition CacheNode_args :: "Node \<Rightarrow> sqlval list" where
  "CacheNode_args node =
     [V_IP (Addr node), V_String (OwnerName node),
      V_Float (Latitude node), V_Float (Longitude node),
      V_Int (SourceID node), V_Status (Status node)]"

definition CacheNode :: "world \<Rightarrow> DB \<Rightarrow> Node \<Rightarrow> int \<Rightarrow> error option \<times> DB" where
  "CacheNode w db node expiry =
     (case Prepare w db CacheNode_sql of
        (Some err, db1) \<Rightarrow> (Some err, db1)
      | (None, db1) \<Rightarrow>
          (case Exec w db1 CacheNode_sql (CacheNode_args node) of
             (err, db2) \<Rightarrow> (err, Close db2 CacheNode_sql)))"

text \<open>
  One iteration of the loop of \<open>CacheNodes\<close> builds this argument tuple; \<open>i\<close> is the
  index of the iteration, at which the clock is read when \<open>RetrieveTime\<close> is zero.
\<close>

definition CacheNodes_args :: "world \<Rightarrow> nat \<Rightarrow> Node \<Rightarrow> sqlval list" where
  "CacheNodes_args w i node =
     (let retrieved = RetrieveTime node;
          retrieved = (if retrieved = 0 then unix_now w i else retrieved)
      in [V_Bytes (Addr node), V_String (OwnerName node),
          V_Float (Latitude node), V_Float (Longitude node),
          V_Status (Status node), V_Int (SourceID node), V_Int retrieved])"

fun CacheNodes_loop :: "world \<Rightarrow> nat \<Rightarrow> DB \<Rightarrow> Node list \<Rightarrow> error option \<times> DB" where
  "CacheNodes_loop w i db [] = (None, db)"
| "CacheNodes_loop w i db (node # nodes) =
     (case Exec w db CacheNodes_sql (CacheNodes_args w i node) of
        (Some err, db') \<Rightarrow> (Some err, db')
      | (None, db') \<Rightarrow> CacheNodes_loop w (Suc i) db' nodes)"

definition CacheNodes :: "world \<Rightarrow> DB \<Rightarrow> Node list \<Rightarrow> error option \<times> DB" where
  "CacheNodes w db nodes =
     (case Prepare w db CacheNodes_sql of
        (Some err, db1) \<Rightarrow> (Some err, db1)
      | (None, db1) \<Rightarrow>
          (case CacheNodes_loop w 0 db1 nodes of
             (Some err, db2) \<Rightarrow> (Some err, db2)
           | (None, db2) \<Rightarrow> (None, Close db2 CacheNodes_sql)))"

section \<open>The source registry\<close>

type_synonym registry = "(string, int) fmap"

text \<open>
  \<open>GetMapSourceToID\<close>: the map starts as \<open>local \<mapsto> 0\<close>; a query that fails with
  \<open>sql.ErrNoRows\<close> is no failure; every scanned row is stored over what is there.
\<close>

fun scan_rows :: "registry \<Rightarrow> (error + string \<times> int) list \<Rightarrow> registry \<times> error option" where
  "scan_rows sourceToID [] = (sourceToID, None)"
| "scan_rows sourceToID (Inl err # rows) = (sourceToID, Some err)"
| "scan_rows sourceToID (Inr (hostname, sid) # rows) =
     scan_rows (fmupd hostname sid sourceToID) rows"

definition GetMapSourceToID :: "world \<Rightarrow> registry \<times> error option" where
  "GetMapSourceToID w =
     (let sourceToID = fmupd ''local'' 0 fmempty
      in case query_cached_maps w of
           Inl err \<Rightarrow> (if err = ErrNoRows then (sourceToID, None) else (sourceToID, Some err))
         | Inr rows \<Rightarrow> scan_rows sourceToID rows)"

text \<open>
  The two critical sections of \<open>GetAllFromChildMap\<close>: the lookup under the read lock,
  and the allocation under the write lock, which takes \<open>len(*sourceToID) + 1\<close> and stores
  it without looking the source up again.
\<close>

definition read_source :: "registry \<Rightarrow> string \<Rightarrow> int option" where
  "read_source sourceToID source = fmlookup sourceToID source"

definition add_source :: "registry \<Rightarrow> string \<Rightarrow> int \<times> registry" where
  "add_source sourceToID source =
     (let sid = int (fcard (fmdom sourceToID)) + 1
      in (sid, fmupd source sid sourceToID))"

section \<open>GetAllFromChildMap\<close>

datatype log_entry =
    L_Err string error
  | L_RemoteErr string string
  | L_Debug string int

definition TrimRight :: "string \<Rightarrow> string \<Rightarrow> string" where
  "TrimRight s cutset = rev (dropWhile (\<lambda>c. c \<in> set cutset) (rev s))"

definition api_url :: "string \<Rightarrow> string" where
  "api_url address = ''http://'' @ TrimRight address ''/'' @ ''/api/all''"

text \<open>
  The request and the decoding: either the line that is logged before \<open>nil\<close> is
  returned, or \<open>jresp.Data\<close>. A Go map is ranged over in an order the runtime chooses;
  \<open>Data\<close> is the list of its entries in the order of this run, so a statement for every
  \<open>Data\<close> is a statement for every order.
\<close>

definition fetch :: "world \<Rightarrow> string \<Rightarrow> log_entry + (string \<times> Node list) list" where
  "fetch w address =
     (case http_get w (api_url address) of
        Inl err \<Rightarrow> Inl (L_Err address err)
      | Inr body \<Rightarrow>
          (case json_decode w body of
             Inl err \<Rightarrow> Inl (L_Err address err)
           | Inr jresp \<Rightarrow>
               (case Error jresp of
                  Some e \<Rightarrow> Inl (L_RemoteErr address e)
                | None \<Rightarrow> Inr (Data jresp))))"

text \<open>
  \<open>replacedLocal\<close> is declared (false) and tested, and nothing assigns it.
\<close>

definition effective_source :: "string \<Rightarrow> bool \<Rightarrow> string \<Rightarrow> string" where
  "effective_source address replacedLocal source =
     (if \<not> replacedLocal \<and> source = ''local'' then address else source)"

definition stamp :: "int \<Rightarrow> Node list \<Rightarrow> Node list" where
  "stamp sid remoteNodes = map (\<lambda>n. n\<lparr>SourceID := sid\<rparr>) remoteNodes"

text \<open>The loop over \<open>jresp.Data\<close>, when no other goroutine runs in between.\<close>

fun sources_loop ::
  "string \<Rightarrow> bool \<Rightarrow> (string \<times> Node list) list \<Rightarrow> registry \<Rightarrow> log_entry list \<Rightarrow> Node list
     \<Rightarrow> registry \<times> log_entry list \<times> Node list" where
  "sources_loop address replacedLocal [] sourceToID lg nodes = (sourceToID, lg, nodes)"
| "sources_loop address replacedLocal ((source, remoteNodes) # rest) sourceToID lg nodes =
     (let source = effective_source address replacedLocal source
      in case read_source sourceToID source of
           Some sid \<Rightarrow>
             sources_loop address replacedLocal rest sourceToID lg (nodes @ stamp sid remoteNodes)
         | None \<Rightarrow>
             (case add_source sourceToID source of
                (sid, sourceToID') \<Rightarrow>
                  sources_loop address replacedLocal rest sourceToID'
                    (lg @ [L_Debug source sid]) (nodes @ stamp sid remoteNodes)))"

text \<open>The result \<open>None\<close> is the nil slice.\<close>

definition GetAllFromChildMap ::
  "world \<Rightarrow> string \<Rightarrow> registry \<Rightarrow> log_entry list
     \<Rightarrow> Node list option \<times> registry \<times> log_entry list" where
  "GetAllFromChildMap w address sourceToID lg =
     (case fetch w address of
        Inl entry \<Rightarrow> (None, sourceToID, lg @ [entry])
      | Inr data \<Rightarrow>
          (case sources_loop address False data sourceToID lg [] of
             (sourceToID', lg', nodes) \<Rightarrow> (Some nodes, sourceToID', lg')))"

definition appendNodesFromChildMap ::
  "world \<Rightarrow> Node list \<Rightarrow> string \<Rightarrow> registry \<Rightarrow> log_entry list
     \<Rightarrow> Node list \<times> registry \<times> log_entry list" where
  "appendNodesFromChildMap w dst address sourceToID lg =
     (case GetAllFromChildMap w address sourceToID lg of
        (None, sourceToID', lg') \<Rightarrow> (dst, sourceToID', lg')
      | (Some nodes, sourceToID', lg') \<Rightarrow> (dst @ nodes, sourceToID', lg'))"

section \<open>GetAllFromChildMaps: the goroutines and their interleavings\<close>

text \<open>
  A goroutine of \<open>GetAllFromChildMaps\<close> is at one of these points. Between two points it
  touches nothing shared, or it is inside one critical section:
  \<^item> \<open>T_Spawned\<close>: created by the \<open>go\<close> statement, its body not yet started;
  \<^item> \<open>T_Loop address rest nodes\<close>: in the loop of \<open>GetAllFromChildMap\<close>, before the
    read lock of the next entry of \<open>rest\<close> (or, when \<open>rest\<close> is empty, before the append
    under \<open>dstMutex\<close>);
  \<^item> \<open>T_Miss address source remoteNodes rest nodes\<close>: the lookup found nothing and
    the read lock is released; before the write lock;
  \<^item> \<open>T_Signal address\<close>: \<open>appendNodesFromChildMap\<close> has returned; at the send on
    \<open>finishChan\<close>;
  \<^item> \<open>T_Done address\<close>: the send has been received.
  \<open>address\<close> is the argument that \<open>appendNodesFromChildMap\<close> was called with.
\<close>

datatype task =
    T_Spawned
  | T_Loop string "(string \<times> Node list) list" "Node list"
  | T_Miss string string "Node list" "(string \<times> Node list) list" "Node list"
  | T_Signal string
  | T_Done string

text \<open>
  The calling goroutine: in the \<open>range\<close> loop with the addresses still to come, in the
  receive loop with \<open>workers\<close> receives to go, or returned.
\<close>

datatype coordinator =
    M_Spawn "string list"
  | M_Wait nat
  | M_Return "error option"

text \<open>
  What the goroutines share. \<open>address_var\<close> is the variable \<open>address\<close> of the \<open>range\<close>
  loop: the loop declares it once and assigns it in every iteration, and the function
  literal of the \<open>go\<close> statement refers to it, so a goroutine reads it when its body
  evaluates the arguments of \<open>appendNodesFromChildMap\<close>. (The repository predates Go
  modules; the per-iteration loop variables of Go 1.22 apply only to a module that asks
  for them.) \<open>merged\<close> is the slice \<open>nodes\<close> of \<open>GetAllFromChildMaps\<close>.
\<close>

record pass =
  address_var :: string
  sourceToID :: registry
  merged :: "Node list"
  goroutines :: "task list"
  coordinator :: coordinator
  database :: DB
  logged :: "log_entry list"

datatype event = Main | Task nat

definition main_step :: "world \<Rightarrow> string list \<Rightarrow> pass \<Rightarrow> pass option" where
  "main_step w addresses s =
     (case coordinator s of
        M_Spawn [] \<Rightarrow> Some (s\<lparr>coordinator := M_Wait (length addresses)\<rparr>)
      | M_Spawn (address # rest) \<Rightarrow>
          Some (s\<lparr>address_var := address,
                  goroutines := goroutines s @ [T_Spawned],
                  coordinator := M_Spawn rest\<rparr>)
      | M_Wait 0 \<Rightarrow>
          (case CacheNodes w (database s) (merged s) of
             (err, db') \<Rightarrow> Some (s\<lparr>database := db', coordinator := M_Return err\<rparr>))
      | M_Wait (Suc workers) \<Rightarrow> None
      | M_Return err \<Rightarrow> None)"

text \<open>
  A step of goroutine \<open>i\<close>. The send on the unbuffered \<open>finishChan\<close> happens together
  with a receive of the caller, so it is possible only while the caller is in its receive
  loop; the caller's receive has no step of its own.
\<close>

definition task_step :: "world \<Rightarrow> nat \<Rightarrow> pass \<Rightarrow> pass option" where
  "task_step w i s =
     (if length (goroutines s) \<le> i then None
      else
        (case goroutines s ! i of
           T_Spawned \<Rightarrow>
             (let address = address_var s
              in case fetch w address of
                   Inl entry \<Rightarrow>
                     Some (s\<lparr>logged := logged s @ [entry],
                             goroutines := (goroutines s)[i := T_Signal address]\<rparr>)
                 | Inr data \<Rightarrow>
                     Some (s\<lparr>goroutines := (goroutines s)[i := T_Loop address data []]\<rparr>))
         | T_Loop address [] nodes \<Rightarrow>
             Some (s\<lparr>merged := merged s @ nodes,
                     goroutines := (goroutines s)[i := T_Signal address]\<rparr>)
         | T_Loop address ((source, remoteNodes) # rest) nodes \<Rightarrow>
             (let source = effective_source address False source
              in case read_source (sourceToID s) source of
                   Some sid \<Rightarrow>
                     Some (s\<lparr>goroutines :=
                               (goroutines s)[i := T_Loop address rest (nodes @ stamp sid remoteNodes)]\<rparr>)
                 | None \<Rightarrow>
                     Some (s\<lparr>goroutines :=
                               (goroutines s)[i := T_Miss address source remoteNodes rest nodes]\<rparr>))
         | T_Miss address source remoteNodes rest nodes \<Rightarrow>
             (case add_source (sourceToID s) source of
                (sid, sourceToID') \<Rightarrow>
                  Some (s\<lparr>sourceToID := sourceToID',
                          logged := logged s @ [L_Debug source sid],
                          goroutines :=
                            (goroutines s)[i := T_Loop address rest (nodes @ stamp sid remoteNodes)]\<rparr>))
         | T_Signal address \<Rightarrow>
             (case coordinator s of
                M_Wait (Suc workers) \<Rightarrow>
                  Some (s\<lparr>coordinator := M_Wait workers,
                          goroutines := (goroutines s)[i := T_Done address]\<rparr>)
              | _ \<Rightarrow> None)
         | T_Done address \<Rightarrow> None))"

fun step :: "world \<Rightarrow> string list \<Rightarrow> event \<Rightarrow> pass \<Rightarrow> pass option" where
  "step w addresses Main s = main_step w addresses s"
| "step w addresses (Task i) s = task_step w i s"

text \<open>
  A schedule is the list of the goroutines in the order in which they take their steps;
  \<open>run\<close> is \<open>None\<close> when the schedule asks a blocked or finished goroutine to step.
\<close>

fun run :: "world \<Rightarrow> string list \<Rightarrow> event list \<Rightarrow> pass \<Rightarrow> pass option" where
  "run w addresses [] s = Some s"
| "run w addresses (ev # evs) s =
     (case step w addresses ev s of
        None \<Rightarrow> None
      | Some s' \<Rightarrow> run w addresses evs s')"

text \<open>
  \<open>GetAllFromChildMaps\<close> up to its first \<open>go\<close> statement: it returns at once when the
  registry cannot be loaded.
\<close>

definition GetAllFromChildMaps_start :: "world \<Rightarrow> DB \<Rightarrow> string list \<Rightarrow> pass" where
  "GetAllFromChildMaps_start w db addresses =
     (case GetMapSourceToID w of
        (m, Some err) \<Rightarrow>
          \<lparr>address_var = [], sourceToID = m, merged = [], goroutines = [],
           coordinator = M_Return (Some err), database = db, logged = []\<rparr>
      | (m, None) \<Rightarrow>
          \<lparr>address_var = [], sourceToID = m, merged = [], goroutines = [],
           coordinator = M_Spawn addresses, database = db, logged = []\<rparr>)"

section \<open>Vocabulary of the statements\<close>

text \<open>A node without its source stamp, to compare with the decoded node.\<close>

definition unstamp :: "Node \<Rightarrow> Node" where
  "unstamp n = n\<lparr>SourceID := 0\<rparr>"

text \<open>
  The nodes that the remote at \<open>address\<close> delivers in this world, without their stamps:
  none when the request, the decoding or the remote itself reports an error.
\<close>

definition payload :: "world \<Rightarrow> string \<Rightarrow> Node multiset" where
  "payload w address =
     (case fetch w address of
        Inl entry \<Rightarrow> {#}
      | Inr data \<Rightarrow> mset (map unstamp (concat (map snd data))))"

fun is_Done :: "task \<Rightarrow> bool" where
  "is_Done (T_Done address) = True"
| "is_Done t = False"

text \<open>The number of sends on \<open>finishChan\<close> that have been received.\<close>

definition received :: "pass \<Rightarrow> nat" where
  "received s = length (filter is_Done (goroutines s))"

text \<open>
  The nodes a goroutine holds and has not appended yet (\<open>owed\<close>), and the nodes its
  remote delivers (\<open>due\<close>), both without stamps. A goroutine that has not started has
  not chosen its remote yet.
\<close>

fun owed :: "task \<Rightarrow> Node multiset" where
  "owed T_Spawned = {#}"
| "owed (T_Loop address rest nodes) =
     mset (map unstamp nodes) + mset (map unstamp (concat (map snd rest)))"
| "owed (T_Miss address source remoteNodes rest nodes) =
     mset (map unstamp nodes) + mset (map unstamp remoteNodes)
       + mset (map unstamp (concat (map snd rest)))"
| "owed (T_Signal address) = {#}"
| "owed (T_Done address) = {#}"

fun due :: "world \<Rightarrow> task \<Rightarrow> Node multiset" where
  "due w T_Spawned = {#}"
| "due w (T_Loop address rest nodes) = payload w address"
| "due w (T_Miss address source remoteNodes rest nodes) = payload w address"
| "due w (T_Signal address) = payload w address"
| "due w (T_Done address) = payload w address"

text \<open>The line a goroutine's failed request has put into the log, if it failed.\<close>

fun failure_logged :: "world \<Rightarrow> log_entry list \<Rightarrow> task \<Rightarrow> bool" where
  "failure_logged w lg T_Spawned = True"
| "failure_logged w lg (T_Loop address rest nodes) = True"
| "failure_logged w lg (T_Miss address source remoteNodes rest nodes) = True"
| "failure_logged w lg (T_Signal address) =
     (case fetch w address of Inl entry \<Rightarrow> entry \<in> set lg | Inr data \<Rightarrow> True)"
| "failure_logged w lg (T_Done address) =
     (case fetch w address of Inl entry \<Rightarrow> entry \<in> set lg | Inr data \<Rightarrow> True)"

text \<open>
  The invariant of a pass over \<open>n\<close> addresses whose registry was loaded, with the
  database \<open>db\<close> at its start: how many goroutines exist and how many have been received
  from; the database is untouched until the commit, whose result is what is returned; the
  merged nodes and the nodes still held add up to what the chosen remotes deliver; every
  failure is in the log.
\<close>

definition barrier_inv :: "nat \<Rightarrow> pass \<Rightarrow> bool" where
  "barrier_inv n s =
     (case coordinator s of
        M_Spawn rest \<Rightarrow> length (goroutines s) + length rest = n \<and> received s = 0
      | M_Wait workers \<Rightarrow> length (goroutines s) = n \<and> received s + workers = n
      | M_Return err \<Rightarrow> length (goroutines s) = n \<and> received s = n)"

definition commit_inv :: "world \<Rightarrow> DB \<Rightarrow> pass \<Rightarrow> bool" where
  "commit_inv w db s =
     (case coordinator s of
        M_Return err \<Rightarrow> err = fst (CacheNodes w db (merged s))
                          \<and> database s = snd (CacheNodes w db (merged s))
      | _ \<Rightarrow> database s = db)"

definition merge_inv :: "world \<Rightarrow> pass \<Rightarrow> bool" where
  "merge_inv w s =
     (mset (map unstamp (merged s)) + sum_list (map owed (goroutines s))
        = sum_list (map (due w) (goroutines s)))"

definition log_inv :: "world \<Rightarrow> pass \<Rightarrow> bool" where
  "log_inv w s = list_all (failure_logged w (logged s)) (goroutines s)"

section \<open>Concrete inputs\<close>

definition node_alice :: Node where
  "node_alice =
     \<lparr>Addr = [10, 0, 0, 1], OwnerName = ''alice'', OwnerEmail = ''alice@example.org'',
      Latitude = 1, Longitude = 2, Status = 1, SourceID = 0, RetrieveTime = 0\<rparr>"

definition node_bob :: Node where
  "node_bob =
     \<lparr>Addr = [10, 0, 0, 2], OwnerName = ''bob'', OwnerEmail = ''bob@example.org'',
      Latitude = 3, Longitude = 4, Status = 1, SourceID = 7, RetrieveTime = 5\<rparr>"

definition node_carol :: Node where
  "node_carol =
     \<lparr>Addr = [10, 0, 0, 3], OwnerName = ''carol'', OwnerEmail = ''carol@example.org'',
      Latitude = 5, Longitude = 6, Status = 2, SourceID = 0, RetrieveTime = 0\<rparr>"

text \<open>
  A world with four remotes: \<open>a.example\<close> lists alice as its own node and bob under
  \<open>c.example\<close>; \<open>b.example\<close> lists carol under \<open>c.example\<close>; a host named \<open>local\<close> lists
  bob as its own; \<open>e.example\<close> answers with an error field; every other host is
  unreachable. The database accepts everything, the table \<open>cached_maps\<close> is empty, and
  the clock reads 1000 in the first iteration.
\<close>

definition example_world :: world where
  "example_world =
     \<lparr>prepare_err = (\<lambda>db q. None),
      exec_err = (\<lambda>db q args. None),
      query_cached_maps = Inr [],
      unix_now = (\<lambda>i. 1000 + int i),
      http_get = (\<lambda>url.
         if url = ''http://a.example/api/all'' then Inr ''A''
         else if url = ''http://b.example/api/all'' then Inr ''B''
         else if url = ''http://local/api/all'' then Inr ''L''
         else if url = ''http://e.example/api/all'' then Inr ''E''
         else Inl (Err ''connection refused'')),
      json_decode = (\<lambda>body.
         if body = ''A'' then
           Inr \<lparr>Data = [(''local'', [node_alice]), (''c.example'', [node_bob])], Error = None\<rparr>
         else if body = ''B'' then
           Inr \<lparr>Data = [(''c.example'', [node_carol])], Error = None\<rparr>
         else if body = ''L'' then
           Inr \<lparr>Data = [(''local'', [node_bob])], Error = None\<rparr>
         else if body = ''E'' then
           Inr \<lparr>Data = [], Error = Some ''database is locked''\<rparr>
         else Inl (Err ''invalid character''))\<rparr>"

text \<open>The same world with a store that refuses bob's row.\<close>

definition refusing_world :: world where
  "refusing_world =
     example_world\<lparr>exec_err :=
       (\<lambda>db q args. if args ! 1 = V_String ''bob'' then Some (Err ''disk full'') else None)\<rparr>"

definition empty_db :: DB where
  "empty_db = \<lparr>nodes_cached = [], calls = []\<rparr>"

definition local_only :: registry where
  "local_only = fmupd ''local'' 0 fmempty"

text \<open>A pass whose goroutines are all received from, about to commit three nodes.\<close>

definition waiting_pass :: pass where
  "waiting_pass =
     \<lparr>address_var = ''a.example'', sourceToID = local_only,
      merged = [node_alice, node_bob, node_carol],
      goroutines = [T_Done ''a.example''], coordinator = M_Wait 0,
      database = empty_db, logged = []\<rparr>"

section \<open>The statements and the inserts\<close>

lemma columns_of_CacheNode_sql:
  "columns_of CacheNode_sql = [''address'', ''owner'', ''lat'', ''lon'', ''status'', ''expiration'']"
  by (simp add: columns_of_def CacheNode_sql_def trim_spaces_def)

lemma columns_of_CacheNodes_sql:
  "columns_of CacheNodes_sql =
     [''address'', ''owner'', ''lat'', ''lon'', ''status'', ''source'', ''retrieved'']"
  by (simp add: columns_of_def CacheNodes_sql_def trim_spaces_def)

lemma placeholders_of_CacheNode_sql: "placeholders_of CacheNode_sql = 7"
  by (simp add: placeholders_of_def CacheNode_sql_def)

lemma placeholders_of_CacheNodes_sql: "placeholders_of CacheNodes_sql = 7"
  by (simp add: placeholders_of_def CacheNodes_sql_def)

lemma CacheNode_calls:
  "calls (snd (CacheNode w db node expiry)) =
     calls db @
       (if prepare_err w db CacheNode_sql = None
        then [C_Prepare CacheNode_sql, C_Exec CacheNode_sql (CacheNode_args node),
              C_Close CacheNode_sql]
        else [C_Prepare CacheNode_sql])"
  by (auto simp: CacheNode_def Prepare_def Exec_def Close_def split: option.splits prod.splits)

lemma CacheNodes_loop_calls:
  "\<exists>rest. calls (snd (CacheNodes_loop w i db nodes)) = calls db @ rest"
proof (induction nodes arbitrary: i db)
  case Nil
  show ?case by simp
next
  case (Cons n ns)
  show ?case
  proof (cases "exec_err w db CacheNodes_sql (CacheNodes_args w i n)")
    case (Some e)
    then show ?thesis by (simp add: Exec_def)
  next
    case None
    let ?db1 = "db\<lparr>nodes_cached := nodes_cached db @ [CacheNodes_args w i n],
                  calls := calls db @ [C_Exec CacheNodes_sql (CacheNodes_args w i n)]\<rparr>"
    from Cons.IH[of "Suc i" ?db1] obtain rest where
      "calls (snd (CacheNodes_loop w (Suc i) ?db1 ns)) = calls ?db1 @ rest" by blast
    with None show ?thesis by (simp add: Exec_def)
  qed
qed

lemma CacheNodes_calls:
  "\<exists>rest. calls (snd (CacheNodes w db nodes)) = calls db @ C_Prepare CacheNodes_sql # rest"
proof (cases "prepare_err w db CacheNodes_sql")
  case (Some e)
  then show ?thesis by (simp add: CacheNodes_def Prepare_def)
next
  case None
  let ?db1 = "db\<lparr>calls := calls db @ [C_Prepare CacheNodes_sql]\<rparr>"
  obtain rest where r: "calls (snd (CacheNodes_loop w 0 ?db1 nodes)) = calls ?db1 @ rest"
    using CacheNodes_loop_calls by blast
  obtain err db2 where l: "CacheNodes_loop w 0 ?db1 nodes = (err, db2)" by force
  with r None show ?thesis
    by (cases err) (simp_all add: CacheNodes_def Prepare_def Close_def)
qed

text \<open>
  Claim C9. \<open>CacheNode\<close> prepares a statement over the columns address, owner, lat, lon,
  status, expiration, and \<open>CacheNodes\<close> one over address, owner, lat, lon, status, source,
  retrieved: the first names the expiration column, which the second omits, and omits the
  source and retrieved columns, which the second names. The statement of \<open>CacheNode\<close>
  names six columns and has seven placeholders; the one of \<open>CacheNodes\<close> has as many
  placeholders as columns.
\<close>

theorem insert_statements_mismatch:
  "(\<exists>rest. calls (snd (CacheNode w db node expiry)) = calls db @ C_Prepare CacheNode_sql # rest)
   \<and> (\<exists>rest. calls (snd (CacheNodes w db nodes)) = calls db @ C_Prepare CacheNodes_sql # rest)
   \<and> columns_of CacheNode_sql = [''address'', ''owner'', ''lat'', ''lon'', ''status'', ''expiration'']
   \<and> columns_of CacheNodes_sql =
        [''address'', ''owner'', ''lat'', ''lon'', ''status'', ''source'', ''retrieved'']
   \<and> ''expiration'' \<in> set (columns_of CacheNode_sql)
   \<and> ''expiration'' \<notin> set (columns_of CacheNodes_sql)
   \<and> ''source'' \<notin> set (columns_of CacheNode_sql)
   \<and> ''retrieved'' \<notin> set (columns_of CacheNode_sql)
   \<and> ''source'' \<in> set (columns_of CacheNodes_sql)
   \<and> ''retrieved'' \<in> set (columns_of CacheNodes_sql)
   \<and> length (columns_of CacheNode_sql) = 6
   \<and> placeholders_of CacheNode_sql = 7
   \<and> length (columns_of CacheNodes_sql) = placeholders_of CacheNodes_sql"
proof -
  have a: "\<exists>rest. calls (snd (CacheNode w db node expiry)) = calls db @ C_Prepare CacheNode_sql # rest"
    by (simp add: CacheNode_calls)
  have b: "\<exists>rest. calls (snd (CacheNodes w db nodes)) = calls db @ C_Prepare CacheNodes_sql # rest"
    by (rule CacheNodes_calls)
  show ?thesis
    using a b
    by (simp add: columns_of_CacheNode_sql columns_of_CacheNodes_sql
        placeholders_of_CacheNode_sql placeholders_of_CacheNodes_sql)
qed

text \<open>
  Claim C10. \<open>CacheNode\<close> does not read its expiry argument: for any two expiry values
  it returns the same error and leaves the same database, having made the same driver
  calls. When the statement is prepared, the one \<open>Exec\<close> passes \<open>node.SourceID\<close> in the
  position of the status column and \<open>node.Status\<close> in the position of the expiration
  column.
\<close>

theorem CacheNode_ignores_expiry:
  "CacheNode w db node e1 = CacheNode w db node e2
   \<and> calls (snd (CacheNode w db node e1)) =
       calls db @
         (if prepare_err w db CacheNode_sql = None
          then [C_Prepare CacheNode_sql, C_Exec CacheNode_sql (CacheNode_args node),
                C_Close CacheNode_sql]
          else [C_Prepare CacheNode_sql])
   \<and> columns_of CacheNode_sql ! 4 = ''status''
   \<and> CacheNode_args node ! 4 = V_Int (SourceID node)
   \<and> columns_of CacheNode_sql ! 5 = ''expiration''
   \<and> CacheNode_args node ! 5 = V_Status (Status node)"
proof -
  have "CacheNode w db node e1 = CacheNode w db node e2"
    by (simp add: CacheNode_def)
  moreover have "CacheNode_args node ! 4 = V_Int (SourceID node)"
    "CacheNode_args node ! 5 = V_Status (Status node)"
    by (simp_all add: CacheNode_args_def)
  ultimately show ?thesis
    by (simp add: CacheNode_calls columns_of_CacheNode_sql)
qed

section \<open>The batch insert\<close>

lemma CacheNodes_loop_append:
  "CacheNodes_loop w i db (xs @ ys) =
     (case CacheNodes_loop w i db xs of
        (Some e, db') \<Rightarrow> (Some e, db')
      | (None, db') \<Rightarrow> CacheNodes_loop w (i + length xs) db' ys)"
  by (induction xs arbitrary: i db) (auto split: prod.splits option.splits)

lemma CacheNodes_loop_rows:
  "CacheNodes_loop w i db nodes = (r, db') \<Longrightarrow>
     \<exists>k \<le> length nodes.
        nodes_cached db' = nodes_cached db @ map (\<lambda>j. CacheNodes_args w (i + j) (nodes ! j)) [0..<k]
      \<and> (r = None \<longrightarrow> k = length nodes)"
proof (induction nodes arbitrary: i db)
  case Nil
  then show ?case by simp
next
  case (Cons n ns)
  show ?case
  proof (cases "exec_err w db CacheNodes_sql (CacheNodes_args w i n)")
    case (Some e)
    with Cons.prems have "nodes_cached db' = nodes_cached db" "r = Some e"
      by (auto simp: Exec_def)
    then show ?thesis by (intro exI[of _ 0]) simp
  next
    case None
    let ?db1 = "db\<lparr>nodes_cached := nodes_cached db @ [CacheNodes_args w i n],
                  calls := calls db @ [C_Exec CacheNodes_sql (CacheNodes_args w i n)]\<rparr>"
    from None Cons.prems have "CacheNodes_loop w (Suc i) ?db1 ns = (r, db')"
      by (simp add: Exec_def)
    from Cons.IH[OF this] obtain k where k: "k \<le> length ns"
      "nodes_cached db' = nodes_cached ?db1 @ map (\<lambda>j. CacheNodes_args w (Suc i + j) (ns ! j)) [0..<k]"
      "r = None \<longrightarrow> k = length ns" by blast
    have "map (\<lambda>j. CacheNodes_args w (i + j) ((n # ns) ! j)) [0..<Suc k]
        = CacheNodes_args w i n # map (\<lambda>j. CacheNodes_args w (Suc i + j) (ns ! j)) [0..<k]"
      by (simp add: upt_conv_Cons map_Suc_upt[symmetric] del: upt_Suc)
    with k show ?thesis by (intro exI[of _ "Suc k"]) simp
  qed
qed

lemma CacheNodes_rows:
  assumes "CacheNodes w db nodes = (r, db')"
  shows "\<exists>k \<le> length nodes.
        nodes_cached db' = nodes_cached db @ map (\<lambda>j. CacheNodes_args w j (nodes ! j)) [0..<k]
      \<and> (r = None \<longrightarrow> k = length nodes)"
proof (cases "prepare_err w db CacheNodes_sql")
  case (Some e)
  with assms have "nodes_cached db' = nodes_cached db" "r = Some e"
    by (auto simp: CacheNodes_def Prepare_def)
  then show ?thesis by (intro exI[of _ 0]) simp
next
  case None
  let ?db1 = "db\<lparr>calls := calls db @ [C_Prepare CacheNodes_sql]\<rparr>"
  obtain r2 db2 where l: "CacheNodes_loop w 0 ?db1 nodes = (r2, db2)" by force
  from CacheNodes_loop_rows[OF l] obtain k where k: "k \<le> length nodes"
    "nodes_cached db2 = nodes_cached ?db1 @ map (\<lambda>j. CacheNodes_args w (0 + j) (nodes ! j)) [0..<k]"
    "r2 = None \<longrightarrow> k = length nodes" by blast
  from assms None l have "r = r2 \<and> nodes_cached db' = nodes_cached db2"
    by (cases r2) (auto simp: CacheNodes_def Prepare_def Close_def)
  with k show ?thesis by (intro exI[of _ k]) simp
qed

lemma CacheNodes_args_retrieved:
  "CacheNodes_args w i node ! 6 =
     V_Int (if RetrieveTime node = 0 then unix_now w i else RetrieveTime node)"
  by (simp add: CacheNodes_args_def Let_def)

text \<open>
  Claim C7. The rows that \<open>CacheNodes\<close> writes are the rows of the first nodes of the
  batch, in order (of all of them when it returns no error), and the value in the position
  of the retrieved column of the row of a node is the clock reading of that node's
  iteration when the node's \<open>RetrieveTime\<close> is zero, and the node's \<open>RetrieveTime\<close>
  otherwise.
\<close>

theorem CacheNodes_retrieved_column:
  assumes "CacheNodes w db nodes = (r, db')"
  shows "columns_of CacheNodes_sql ! 6 = ''retrieved'' \<and>
     (\<exists>k \<le> length nodes.
        length (nodes_cached db') = length (nodes_cached db) + k
      \<and> (r = None \<longrightarrow> k = length nodes)
      \<and> (\<forall>j < k. nodes_cached db' ! (length (nodes_cached db) + j) = CacheNodes_args w j (nodes ! j)
              \<and> nodes_cached db' ! (length (nodes_cached db) + j) ! 6 =
                  V_Int (if RetrieveTime (nodes ! j) = 0 then unix_now w j
                         else RetrieveTime (nodes ! j))))"
proof -
  from CacheNodes_rows[OF assms] obtain k where k: "k \<le> length nodes"
    "nodes_cached db' = nodes_cached db @ map (\<lambda>j. CacheNodes_args w j (nodes ! j)) [0..<k]"
    "r = None \<longrightarrow> k = length nodes" by blast
  have "\<forall>j < k. nodes_cached db' ! (length (nodes_cached db) + j) = CacheNodes_args w j (nodes ! j)"
    using k(2) by (simp add: nth_append)
  then have "\<forall>j < k. nodes_cached db' ! (length (nodes_cached db) + j) = CacheNodes_args w j (nodes ! j)
              \<and> nodes_cached db' ! (length (nodes_cached db) + j) ! 6 =
                  V_Int (if RetrieveTime (nodes ! j) = 0 then unix_now w j
                         else RetrieveTime (nodes ! j))"
    by (simp add: CacheNodes_args_retrieved)
  moreover have "length (nodes_cached db') = length (nodes_cached db) + k"
    using k(2) by simp
  moreover have "columns_of CacheNodes_sql ! 6 = ''retrieved''"
    by (simp add: columns_of_CacheNodes_sql)
  ultimately show ?thesis using k(1,3) by blast
qed

lemma example_CacheNodes:
  "CacheNodes example_world empty_db [node_alice, node_bob] =
     (None,
      \<lparr>nodes_cached =
         [[V_Bytes [10, 0, 0, 1], V_String ''alice'', V_Float 1, V_Float 2, V_Status 1,
           V_Int 0, V_Int 1000],
          [V_Bytes [10, 0, 0, 2], V_String ''bob'', V_Float 3, V_Float 4, V_Status 1,
           V_Int 7, V_Int 5]],
       calls =
         [C_Prepare CacheNodes_sql,
          C_Exec CacheNodes_sql
            [V_Bytes [10, 0, 0, 1], V_String ''alice'', V_Float 1, V_Float 2, V_Status 1,
             V_Int 0, V_Int 1000],
          C_Exec CacheNodes_sql
            [V_Bytes [10, 0, 0, 2], V_String ''bob'', V_Float 3, V_Float 4, V_Status 1,
             V_Int 7, V_Int 5],
          C_Close CacheNodes_sql]\<rparr>)"
  by (simp add: CacheNodes_def Prepare_def Exec_def Close_def CacheNodes_args_def
      example_world_def empty_db_def node_alice_def node_bob_def)

theorem CacheNodes_retrieved_column_witness:
  "fst (CacheNodes example_world empty_db [node_alice, node_bob]) = None
   \<and> RetrieveTime node_alice = 0 \<and> RetrieveTime node_bob = 5
   \<and> unix_now example_world 0 = 1000
   \<and> nodes_cached (snd (CacheNodes example_world empty_db [node_alice, node_bob])) ! 0 ! 6 = V_Int 1000
   \<and> nodes_cached (snd (CacheNodes example_world empty_db [node_alice, node_bob])) ! 1 ! 6 = V_Int 5"
proof -
  let ?db = "snd (CacheNodes example_world empty_db [node_alice, node_bob])"
  have run: "CacheNodes example_world empty_db [node_alice, node_bob] = (None, ?db)"
    by (simp add: example_CacheNodes)
  from CacheNodes_retrieved_column[OF run] obtain k where
    k: "k \<le> length [node_alice, node_bob]" "k = length [node_alice, node_bob]"
    and rows: "\<forall>j < k. nodes_cached ?db ! (length (nodes_cached empty_db) + j) ! 6 =
                  V_Int (if RetrieveTime ([node_alice, node_bob] ! j) = 0 then unix_now example_world j
                         else RetrieveTime ([node_alice, node_bob] ! j))"
    by blast
  from k have k2: "k = 2" by simp
  have e: "length (nodes_cached empty_db) = 0" by (simp add: empty_db_def)
  from rows k2 have "nodes_cached ?db ! (length (nodes_cached empty_db) + 0) ! 6 =
      V_Int (if RetrieveTime ([node_alice, node_bob] ! 0) = 0 then unix_now example_world 0
             else RetrieveTime ([node_alice, node_bob] ! 0))"
    by (metis zero_less_numeral)
  then have r0: "nodes_cached ?db ! 0 ! 6 = V_Int 1000"
    by (simp add: e node_alice_def example_world_def)
  from rows k2 have "nodes_cached ?db ! (length (nodes_cached empty_db) + 1) ! 6 =
      V_Int (if RetrieveTime ([node_alice, node_bob] ! 1) = 0 then unix_now example_world 1
             else RetrieveTime ([node_alice, node_bob] ! 1))"
    by (metis one_less_numeral_iff semiring_norm(76))
  then have r1: "nodes_cached ?db ! 1 ! 6 = V_Int 5"
    by (simp add: e node_bob_def)
  have f: "fst (CacheNodes example_world empty_db [node_alice, node_bob]) = None"
    by (simp add: example_CacheNodes)
  have g: "RetrieveTime node_alice = 0" "RetrieveTime node_bob = 5"
    "unix_now example_world 0 = 1000"
    by (simp_all add: node_alice_def node_bob_def example_world_def)
  show ?thesis using r0 r1 f g by simp
qed

lemma CacheNodes_loop_fails_at:
  assumes "CacheNodes_loop w i db xs = (None, dbx)"
    and "exec_err w dbx CacheNodes_sql (CacheNodes_args w (i + length xs) x) = Some e"
  shows "CacheNodes_loop w i db (xs @ x # ys) =
           (Some e, dbx\<lparr>calls := calls dbx @
              [C_Exec CacheNodes_sql (CacheNodes_args w (i + length xs) x)]\<rparr>)"
  using assms by (simp add: CacheNodes_loop_append Exec_def)

text \<open>
  Claim C6. When the statement is prepared, the inserts of the nodes \<open>xs\<close> succeed and
  the insert of the next node \<open>x\<close> fails with \<open>e\<close>, then \<open>CacheNodes\<close> returns \<open>e\<close>
  and the database as that failed call left it: its rows are the old rows and those of
  \<open>xs\<close>, whatever nodes \<open>ys\<close> follow \<open>x\<close> in the batch, and the result is the same as
  for the batch that ends with \<open>x\<close>. \<open>GetAllFromChildMaps\<close>, about to commit this batch,
  returns \<open>e\<close>.
\<close>

theorem CacheNodes_stops_at_failure:
  assumes prep: "prepare_err w db CacheNodes_sql = None"
    and before: "CacheNodes_loop w 0 (snd (Prepare w db CacheNodes_sql)) xs = (None, dbx)"
    and fails: "exec_err w dbx CacheNodes_sql (CacheNodes_args w (length xs) x) = Some e"
    and waiting: "coordinator s = M_Wait 0" "database s = db" "merged s = xs @ x # ys"
  shows "CacheNodes w db (xs @ x # ys) =
           (Some e, dbx\<lparr>calls := calls dbx @
              [C_Exec CacheNodes_sql (CacheNodes_args w (length xs) x)]\<rparr>)
       \<and> nodes_cached (snd (CacheNodes w db (xs @ x # ys))) =
           nodes_cached db @ map (\<lambda>j. CacheNodes_args w j (xs ! j)) [0..<length xs]
       \<and> CacheNodes w db (xs @ x # ys) = CacheNodes w db (xs @ [x])
       \<and> map_option coordinator (main_step w addresses s) = Some (M_Return (Some e))"
proof -
  let ?db1 = "db\<lparr>calls := calls db @ [C_Prepare CacheNodes_sql]\<rparr>"
  let ?dbf = "dbx\<lparr>calls := calls dbx @
              [C_Exec CacheNodes_sql (CacheNodes_args w (length xs) x)]\<rparr>"
  have p: "Prepare w db CacheNodes_sql = (None, ?db1)"
    using prep by (simp add: Prepare_def)
  have before': "CacheNodes_loop w 0 ?db1 xs = (None, dbx)"
    using before by (simp add: Prepare_def)
  have l: "CacheNodes_loop w 0 ?db1 (xs @ x # zs) = (Some e, ?dbf)" for zs
    using CacheNodes_loop_fails_at[OF before', of x e zs] fails by simp
  have c: "CacheNodes w db (xs @ x # zs) = (Some e, ?dbf)" for zs
    by (simp add: CacheNodes_def p l)
  from CacheNodes_loop_rows[OF before'] obtain k where
    k: "nodes_cached dbx = nodes_cached ?db1 @ map (\<lambda>j. CacheNodes_args w (0 + j) (xs ! j)) [0..<k]"
       "k = length xs" by blast
  have rows: "nodes_cached ?dbf = nodes_cached db @ map (\<lambda>j. CacheNodes_args w j (xs ! j)) [0..<length xs]"
    using k by simp
  have m: "map_option coordinator (main_step w addresses s) = Some (M_Return (Some e))"
    using waiting c[of ys] by (simp add: main_step_def)
  show ?thesis using c[of ys] c[of "[]"] rows m by simp
qed

lemma refusing_loop_alice:
  "CacheNodes_loop refusing_world 0 (snd (Prepare refusing_world empty_db CacheNodes_sql)) [node_alice] =
     (None,
      \<lparr>nodes_cached = [CacheNodes_args refusing_world 0 node_alice],
       calls = [C_Prepare CacheNodes_sql,
                C_Exec CacheNodes_sql (CacheNodes_args refusing_world 0 node_alice)]\<rparr>)"
  by (simp add: Prepare_def Exec_def CacheNodes_args_def refusing_world_def example_world_def
      empty_db_def node_alice_def)

theorem CacheNodes_stops_at_failure_witness:
  "prepare_err refusing_world empty_db CacheNodes_sql = None
   \<and> fst (CacheNodes refusing_world empty_db [node_alice, node_bob, node_carol]) = Some (Err ''disk full'')
   \<and> nodes_cached (snd (CacheNodes refusing_world empty_db [node_alice, node_bob, node_carol])) =
       [CacheNodes_args refusing_world 0 node_alice]
   \<and> map_option coordinator (main_step refusing_world [''a.example''] waiting_pass) =
       Some (M_Return (Some (Err ''disk full'')))"
proof -
  let ?dbx = "\<lparr>nodes_cached = [CacheNodes_args refusing_world 0 node_alice],
       calls = [C_Prepare CacheNodes_sql,
                C_Exec CacheNodes_sql (CacheNodes_args refusing_world 0 node_alice)]\<rparr>"
  have prep: "prepare_err refusing_world empty_db CacheNodes_sql = None"
    by (simp add: refusing_world_def example_world_def)
  have fails: "exec_err refusing_world ?dbx CacheNodes_sql
      (CacheNodes_args refusing_world (length [node_alice]) node_bob) = Some (Err ''disk full'')"
    by (simp add: refusing_world_def example_world_def CacheNodes_args_def node_bob_def)
  have w: "coordinator waiting_pass = M_Wait 0" "database waiting_pass = empty_db"
    "merged waiting_pass = [node_alice] @ node_bob # [node_carol]"
    by (simp_all add: waiting_pass_def)
  have e: "nodes_cached empty_db = []" by (simp add: empty_db_def)
  show ?thesis
    using CacheNodes_stops_at_failure[OF prep refusing_loop_alice fails w, of "[''a.example'']"] prep
    by (simp add: e)
qed

end
